theory Spec2Isabelle
  imports Complex_Main
begin

section \<open>Values of the script: JSON, errors, tables\<close>

text \<open>
  \<^verbatim>\<open>train.py\<close> is one linear script: load the configuration, load the data, select
  the features, impute, split, choose the estimator, fit, predict, compute four
  metrics, log. Every statement either binds a script variable or calls a library.
  The script's variables are the fields of the record \<open>state\<close> below; a statement is a
  function from the state to an error or the next state; the script is the list of
  its statements, run in order, stopping at the first error (nothing is caught).

  A configuration is what \<^verbatim>\<open>json.load\<close> returns. A Python \<^verbatim>\<open>dict\<close> from JSON has
  string keys; it is kept as an association list read with \<open>map_of\<close>.
\<close>

datatype json =
    JNull
  | JBool bool
  | JNum real
  | JStr string
  | JArr "json list"
  | JObj "(string \<times> json) list"

datatype error =
    KeyError string
  | ValueError string
  | TypeError string
  | NameError string
  | FileNotFoundError string
  | JSONDecodeError string
  | ParserError string

definition and_then :: "error + 'a \<Rightarrow> ('a \<Rightarrow> error + 'b) \<Rightarrow> error + 'b" where
  "and_then r f = (case r of Inl e \<Rightarrow> Inl e | Inr v \<Rightarrow> f v)"

text \<open>\<^verbatim>\<open>d[k]\<close> on a value read from JSON: a missing key raises KeyError, a value that
  is not a dict raises TypeError.\<close>

fun getitem :: "json \<Rightarrow> string \<Rightarrow> error + json" where
  "getitem (JObj kvs) k = (case map_of kvs k of None \<Rightarrow> Inl (KeyError k) | Some v \<Rightarrow> Inr v)"
| "getitem _ k = Inl (TypeError ''value is not subscriptable by a key'')"

text \<open>Python's truth value of a JSON value, as \<^verbatim>\<open>if config[...]['enabled']:\<close> reads it.\<close>

fun truthy :: "json \<Rightarrow> bool" where
  "truthy JNull = False"
| "truthy (JBool b) = b"
| "truthy (JNum r) = (r \<noteq> 0)"
| "truthy (JStr s) = (s \<noteq> [])"
| "truthy (JArr xs) = (xs \<noteq> [])"
| "truthy (JObj kvs) = (kvs \<noteq> [])"

text \<open>
  The table read by \<^verbatim>\<open>pd.read_csv\<close>: column labels (strings, made unique by the reader)
  and rows of cells; a cell is a number or missing (NaN), \<open>None\<close>. A number is the
  value of a double-precision float; the model does no arithmetic on the data, the
  libraries do (see \<open>lib\<close>). The model covers
  configurations whose column labels are strings: a label of another JSON type is
  answered with TypeError.
\<close>

type_synonym cell = "real option"

record frame =
  columns :: "string list"
  rows :: "cell list list"

definition cell_at :: "cell list \<Rightarrow> nat \<Rightarrow> cell" where
  "cell_at r i = (if i < length r then r ! i else None)"

fun index_of :: "string list \<Rightarrow> string \<Rightarrow> nat" where
  "index_of [] k = 0"
| "index_of (c # cs) k = (if c = k then 0 else Suc (index_of cs k))"

fun label :: "json \<Rightarrow> error + string" where
  "label (JStr s) = Inr s"
| "label _ = Inl (TypeError ''column label is not a string'')"

fun labels :: "json \<Rightarrow> error + string list" where
  "labels (JArr []) = Inr []"
| "labels (JArr (v # vs)) =
     and_then (label v) (\<lambda>l. and_then (labels (JArr vs)) (\<lambda>ls. Inr (l # ls)))"
| "labels _ = Inl (TypeError ''features_to_keep is not a list'')"

text \<open>\<^verbatim>\<open>df[features]\<close> with a list of labels: a new table with exactly these columns in
  this order (a label listed twice gives two columns), KeyError for a label the
  table does not have.\<close>

definition select_columns :: "frame \<Rightarrow> string list \<Rightarrow> error + frame" where
  "select_columns d ls =
     (case filter (\<lambda>l. l \<notin> set (columns d)) ls of
        m # ms \<Rightarrow> Inl (KeyError m)
      | [] \<Rightarrow> Inr \<lparr>columns = ls,
                  rows = map (\<lambda>r. map (\<lambda>l. cell_at r (index_of (columns d) l)) ls) (rows d)\<rparr>)"

text \<open>\<^verbatim>\<open>df[name]\<close> with one label: the column's cells, KeyError when absent.\<close>

definition get_column :: "frame \<Rightarrow> string \<Rightarrow> error + cell list" where
  "get_column d l =
     (if l \<in> set (columns d)
      then Inr (map (\<lambda>r. cell_at r (index_of (columns d) l)) (rows d))
      else Inl (KeyError l))"

text \<open>\<^verbatim>\<open>X[column]\<close> inside the plotting loop, where \<open>column\<close> is one of \<open>X.columns\<close>:
  every column that carries the label (more than one when a feature is listed twice).\<close>

definition columns_labelled :: "frame \<Rightarrow> string \<Rightarrow> frame" where
  "columns_labelled d l =
     \<lparr>columns = filter (\<lambda>c. c = l) (columns d),
      rows = map (\<lambda>r. map snd (filter (\<lambda>p. fst p = l) (zip (columns d) r))) (rows d)\<rparr>"

text \<open>A two-dimensional array of numbers, as a library returns it: its number of
  columns (an array has one also when it has no rows) and its rows.\<close>

type_synonym array = "nat \<times> real list list"

text \<open>\<^verbatim>\<open>pd.DataFrame(array, columns=features)\<close>: the labels are put on the array's
  columns; an array whose width is not the number of labels raises ValueError.\<close>

definition DataFrame :: "array \<Rightarrow> string list \<Rightarrow> error + frame" where
  "DataFrame arr ls =
     (if fst arr = length ls \<and> list_all (\<lambda>r. length r = length ls) (snd arr)
      then Inr \<lparr>columns = ls, rows = map (map Some) (snd arr)\<rparr>
      else Inl (ValueError ''Shape of passed values does not match the columns''))"

section \<open>The world outside the script\<close>

text \<open>
  Files: a path holds no file, a file that does not parse, or parsed content.
  \<open>now\<close> is the formatted time \<^verbatim>\<open>datetime.now().strftime(...)\<close> returns.
\<close>

datatype 'a stored = NoFile | Unparsable | Content 'a

record env =
  config_files :: "string \<Rightarrow> json stored"
  csv_files :: "string \<Rightarrow> frame stored"
  now :: string

text \<open>
  The estimators the script can construct, each with the keyword arguments
  \<^verbatim>\<open>**hyperparameters\<close> expands to. A fitted estimator is its prediction function.
\<close>

datatype estimator =
    RandomForestRegressor "(string \<times> json) list"
  | LogisticRegression "(string \<times> json) list"
  | SVR "(string \<times> json) list"
  | XGBRegressor "(string \<times> json) list"

type_synonym predictor = "frame \<Rightarrow> error + real list"

text \<open>
  What the libraries compute is a parameter of the model:
  \<^item> the imputation strategies known by name; a strategy gives the fill value of a
    column from its observed values, or none (the mean of a column with no observed
    value does not exist);
  \<^item> the pseudo-random order the splitter draws from a seed (a key per row index;
    rows are taken in key order);
  \<^item> the learning algorithms;
  \<^item> the three metric functions of lines 89-92, with the flag \<^verbatim>\<open>squared\<close> of
    \<^verbatim>\<open>mean_squared_error\<close>. They compute in double precision, so their results
    are taken as returned: the model does not say that a result equals the
    textbook formula over the real numbers, which rounding denies;
  \<^item> the plotting back end (image bytes, or an error).
\<close>

record lib =
  strategies :: "string \<Rightarrow> (real list \<Rightarrow> real option) option"
  shuffle_key :: "json \<Rightarrow> nat \<Rightarrow> nat \<Rightarrow> nat"
  fit :: "estimator \<Rightarrow> frame \<Rightarrow> cell list \<Rightarrow> error + predictor"
  mean_squared_error :: "real list \<Rightarrow> real list \<Rightarrow> bool \<Rightarrow> error + real"
  mean_absolute_error :: "real list \<Rightarrow> real list \<Rightarrow> error + real"
  r2_score :: "real list \<Rightarrow> real list \<Rightarrow> error + real"
  boxplot :: "string \<Rightarrow> frame \<Rightarrow> error + string"
  heatmap :: "frame \<Rightarrow> error + string"

section \<open>Library calls modelled from the specification\<close>

text \<open>
  Modelled from the spec: \<^verbatim>\<open>SimpleImputer(strategy=...).fit_transform\<close> of scikit-learn
  is not part of the sources. The specification (4.3): it "replaces missing values
  in the feature matrix using one strategy selected by name [...] from a small fixed
  set recognized by the underlying library; fails if an unrecognized strategy name
  is given". Each missing cell of a column is replaced by the strategy's fill value
  for the column, computed from the column's observed values. The specification is
  silent on a column for which the strategy has no fill value: the library leaves
  such a column out of the array it returns, which is then narrower than the table;
  and it refuses a table with no rows or no columns.
\<close>

definition observed :: "frame \<Rightarrow> nat \<Rightarrow> real list" where
  "observed d j = concat (map (\<lambda>r. case cell_at r j of None \<Rightarrow> [] | Some v \<Rightarrow> [v]) (rows d))"

definition fill_values :: "(real list \<Rightarrow> real option) \<Rightarrow> frame \<Rightarrow> real option list" where
  "fill_values stat d = map (\<lambda>j. stat (observed d j)) [0..<length (columns d)]"

fun fill_row :: "real option list \<Rightarrow> cell list \<Rightarrow> real list" where
  "fill_row (None # fills) (c # cs) = fill_row fills cs"
| "fill_row (Some f # fills) (None # cs) = f # fill_row fills cs"
| "fill_row (Some f # fills) (Some v # cs) = v # fill_row fills cs"
| "fill_row fills cs = []"

definition fit_transform :: "lib \<Rightarrow> json \<Rightarrow> frame \<Rightarrow> error + array" where
  "fit_transform L strategy d =
     (case strategy of
        JStr nm \<Rightarrow>
          (case strategies L nm of
             None \<Rightarrow> Inl (ValueError ''unrecognized imputation strategy'')
           | Some stat \<Rightarrow>
               if rows d = [] \<or> columns d = []
               then Inl (ValueError ''Found array with 0 sample(s) or 0 feature(s)'')
               else Inr (length (filter (\<lambda>f. f \<noteq> None) (fill_values stat d)),
                         map (fill_row (fill_values stat d)) (rows d)))
      | _ \<Rightarrow> Inl (ValueError ''unrecognized imputation strategy''))"

text \<open>
  Modelled from the spec: \<^verbatim>\<open>train_test_split\<close> of scikit-learn is not part of the
  sources. The specification (4.4): it "deterministically partitions rows into
  train/test subsets given a fraction and a random seed"; it "fails if fraction is
  outside (0,1) or data has too few rows"; a fraction \<open>0.2\<close> of ten rows gives two
  test rows and eight train rows (section 8). The test set takes the fraction of the
  rows, rounded up; the train set takes the rest; too few rows means that nothing is
  left for the train set. The rows are dealt in the order the seed draws. The
  product is taken over the real numbers; the library takes it in double precision,
  which for \<open>0.2\<close> of ten rows is exactly \<open>2.0\<close> as well.
\<close>

definition take_rows :: "frame \<Rightarrow> nat list \<Rightarrow> frame" where
  "take_rows d idx = \<lparr>columns = columns d, rows = map (\<lambda>i. rows d ! i) idx\<rparr>"

definition train_test_split ::
  "lib \<Rightarrow> frame \<Rightarrow> cell list \<Rightarrow> json \<Rightarrow> json \<Rightarrow> error + (frame \<times> frame \<times> cell list \<times> cell list)" where
  "train_test_split L d t test_size random_state =
     (let n = length (rows d) in
      if length t \<noteq> n then Inl (ValueError ''inconsistent numbers of samples'')
      else
        (case test_size of
           JNum ts \<Rightarrow>
             if 0 < ts \<and> ts < 1 then
               (let n_test = nat \<lceil>ts * real n\<rceil>;
                    n_train = n - n_test;
                    perm = sort_key (shuffle_key L random_state n) [0..<n];
                    test = take n_test perm;
                    train = take n_train (drop n_test perm)
                in if n_train = 0
                   then Inl (ValueError ''the resulting train set will be empty'')
                   else Inr (take_rows d train, take_rows d test,
                             map (\<lambda>i. t ! i) train, map (\<lambda>i. t ! i) test))
             else Inl (ValueError ''test_size is outside (0, 1)'')
         | _ \<Rightarrow> Inl (ValueError ''test_size is not a fraction'')))"

section \<open>The script\<close>

subsection \<open>Constants and paths\<close>

definition tracking_dir :: string where
  "tracking_dir = ''/workspaces/ESG_Credit_Approval/mlflowlogs/mlruns''"

definition artifact_dir :: string where
  "artifact_dir = ''/workspaces/ESG_Credit_Approval/mlflowlogs/artifacts''"

definition model_config_files :: "(string \<times> string) list" where
  "model_config_files =
     [(''RandomForestRegressor'', ''configs/RandomForest.json''),
      (''LogisticRegression'', ''configs/LogisticRegression.json''),
      (''XGBRegressor'', ''configs/XGBoost.json'')]"

definition data_path :: string where
  "data_path = ''data/processed_data/cleaned_data.csv''"

definition experiment_name :: string where
  "experiment_name = ''No_ESG''"

text \<open>\<^verbatim>\<open>os.path.join(a, b)\<close> on POSIX: an absolute \<open>b\<close> replaces \<open>a\<close>; otherwise
  the two are joined by one slash.\<close>

definition path_join :: "string \<Rightarrow> string \<Rightarrow> string" where
  "path_join a b =
     (if b \<noteq> [] \<and> hd b = CHR ''/'' then b
      else if a = [] \<or> last a = CHR ''/'' then a @ b
      else a @ ''/'' @ b)"

definition eda_dir :: string where
  "eda_dir = path_join artifact_dir ''EDA''"

definition boxplot_dir :: string where
  "boxplot_dir = path_join eda_dir ''boxplots''"

definition config_path :: "string \<Rightarrow> string" where
  "config_path model_type = path_join artifact_dir (model_type @ ''.json'')"

definition boxplot_path :: "string \<Rightarrow> string" where
  "boxplot_path column = path_join boxplot_dir (column @ ''_boxplot.png'')"

definition corr_path :: string where
  "corr_path = path_join eda_dir ''correlation_matrix.png''"

subsection \<open>The script's variables\<close>

text \<open>
  What the script logs to the tracking store, call by call, and what it writes to
  the artifact directory, write by write (a later write to the same path replaces
  the earlier file). The entries autologging adds by itself are the library's and
  are not recorded here.
\<close>

datatype event =
    Log_param string json
  | Log_metric string real
  | Log_model string
  | Log_artifact string

datatype content = Json_text json | Png string

record state =
  config :: json
  df :: frame
  features :: "string list"
  X :: frame
  y :: "cell list"
  X_train :: frame
  X_test :: frame
  y_train :: "cell list"
  y_test :: "cell list"
  hyperparameters :: json
  model :: "estimator option"
  run_name :: string
  fitted :: "predictor option"
  predictions :: "real list"
  mse :: real
  mae :: real
  rmse :: real
  r2 :: real
  tracking :: "event list"
  written :: "(string \<times> content) list"

text \<open>The variables \<open>mse\<close>, \<open>mae\<close>, \<open>rmse\<close> and \<open>r2\<close> hold the numbers the metric functions
  return; nothing relates them to each other but the calls that produced them.\<close>

text \<open>The state once configuration and data are loaded; a variable the script has
  not yet bound holds an empty value that no statement reads before binding it.\<close>

definition loaded :: "json \<Rightarrow> frame \<Rightarrow> state" where
  "loaded cfg d =
     \<lparr>config = cfg, df = d, features = [],
      X = \<lparr>columns = [], rows = []\<rparr>, y = [],
      X_train = \<lparr>columns = [], rows = []\<rparr>, X_test = \<lparr>columns = [], rows = []\<rparr>,
      y_train = [], y_test = [],
      hyperparameters = JNull, model = None, run_name = [], fitted = None,
      predictions = [], mse = 0, mae = 0, rmse = 0, r2 = 0,
      tracking = [], written = []\<rparr>"

subsection \<open>Loading (lines 34-38)\<close>

definition load :: "env \<Rightarrow> string \<Rightarrow> error + state" where
  "load E model_type =
     (case map_of model_config_files model_type of
        None \<Rightarrow> Inl (KeyError model_type)
      | Some path \<Rightarrow>
          (case config_files E path of
             NoFile \<Rightarrow> Inl (FileNotFoundError path)
           | Unparsable \<Rightarrow> Inl (JSONDecodeError path)
           | Content cfg \<Rightarrow>
               (case csv_files E data_path of
                  NoFile \<Rightarrow> Inl (FileNotFoundError data_path)
                | Unparsable \<Rightarrow> Inl (ParserError data_path)
                | Content d \<Rightarrow> Inr (loaded cfg d))))"

subsection \<open>Feature selection (lines 41-43)\<close>

definition feature_selection :: "state \<Rightarrow> error + state" where
  "feature_selection s =
     and_then (getitem (config s) ''feature_selection'') (\<lambda>fs.
     and_then (getitem fs ''features_to_keep'') (\<lambda>fk.
     and_then (labels fk) (\<lambda>ls.
     and_then (select_columns (df s) ls) (\<lambda>x.
     and_then (getitem (config s) ''target_variable'') (\<lambda>tv.
     and_then (label tv) (\<lambda>tl.
     and_then (get_column (df s) tl) (\<lambda>t.
       Inr (s\<lparr>features := ls, X := x, y := t\<rparr>))))))))"

subsection \<open>Missing value imputation (lines 46-50)\<close>

definition imputation :: "lib \<Rightarrow> state \<Rightarrow> error + state" where
  "imputation L s =
     and_then (getitem (config s) ''missing_value_imputation'') (\<lambda>mv.
     and_then (getitem mv ''enabled'') (\<lambda>en.
       if truthy en then
         and_then (getitem (config s) ''missing_value_imputation'') (\<lambda>mv'.
         and_then (getitem mv' ''strategy'') (\<lambda>strategy.
         and_then (fit_transform L strategy (X s)) (\<lambda>arr.
         and_then (DataFrame arr (features s)) (\<lambda>x.
           Inr (s\<lparr>X := x\<rparr>)))))
       else Inr s))"

subsection \<open>Data splitting (lines 53-55)\<close>

definition data_splitting :: "lib \<Rightarrow> state \<Rightarrow> error + state" where
  "data_splitting L s =
     and_then (getitem (config s) ''data_split'') (\<lambda>ds.
     and_then (getitem ds ''test_size'') (\<lambda>test_size.
     and_then (getitem (config s) ''data_split'') (\<lambda>ds'.
     and_then (getitem ds' ''random_state'') (\<lambda>random_state.
     and_then (train_test_split L (X s) (y s) test_size random_state) (\<lambda>parts.
       Inr (s\<lparr>X_train := fst parts, X_test := fst (snd parts),
              y_train := fst (snd (snd parts)), y_test := snd (snd (snd parts))\<rparr>))))))"

subsection \<open>Model selection (lines 58-69)\<close>

text \<open>\<^verbatim>\<open>Estimator(**hyperparameters)\<close>: the expansion needs a mapping. What a
  constructor rejects among the keyword arguments is left to \<open>fit\<close>.\<close>

definition construct ::
  "((string \<times> json) list \<Rightarrow> estimator) \<Rightarrow> json \<Rightarrow> error + estimator" where
  "construct k hp =
     (case hp of
        JObj kvs \<Rightarrow> Inr (k kvs)
      | _ \<Rightarrow> Inl (TypeError ''argument after ** must be a mapping''))"

definition dispatch :: "string \<Rightarrow> json \<Rightarrow> error + estimator" where
  "dispatch model_type hp =
     (if model_type = ''RandomForestRegressor'' then construct RandomForestRegressor hp
      else if model_type = ''LogisticRegression'' then construct LogisticRegression hp
      else if model_type = ''SVR'' then construct SVR hp
      else if model_type = ''XGBRegressor'' then construct XGBRegressor hp
      else Inl (ValueError (''Model type '' @ model_type @ '' is not supported.'')))"

definition model_selection :: "string \<Rightarrow> state \<Rightarrow> error + state" where
  "model_selection model_type s =
     and_then (getitem (config s) ''model'') (\<lambda>m.
     and_then (getitem m ''hyperparameters'') (\<lambda>hp.
     and_then (dispatch model_type hp) (\<lambda>est.
       Inr (s\<lparr>hyperparameters := hp, model := Some est\<rparr>))))"

subsection \<open>The run (lines 72-134)\<close>

text \<open>Lines 72-81: autologging is switched on, the experiment is chosen, and the run
  is opened under a name made of the model type and the time. What autologging
  records by itself is the library's.\<close>

definition start_run :: "env \<Rightarrow> string \<Rightarrow> state \<Rightarrow> error + state" where
  "start_run E model_type s = Inr (s\<lparr>run_name := model_type @ '' run '' @ now E\<rparr>)"

text \<open>Lines 83 and 86: \<^verbatim>\<open>model.fit\<close>, then \<^verbatim>\<open>model.predict\<close> on the test rows.\<close>

definition train :: "lib \<Rightarrow> state \<Rightarrow> error + state" where
  "train L s =
     (case model s of
        None \<Rightarrow> Inl (NameError ''model'')
      | Some est \<Rightarrow>
          and_then (fit L est (X_train s) (y_train s)) (\<lambda>p. Inr (s\<lparr>fitted := Some p\<rparr>)))"

definition predict :: "state \<Rightarrow> error + state" where
  "predict s =
     (case fitted s of
        None \<Rightarrow> Inl (NameError ''model'')
      | Some p \<Rightarrow> and_then (p (X_test s)) (\<lambda>ps. Inr (s\<lparr>predictions := ps\<rparr>)))"

text \<open>Lines 89-92: the four metrics of \<open>y_test\<close> against the predictions, in the
  order mse, mae, rmse, r2; \<open>mse\<close> and \<open>rmse\<close> are two calls of
  \<^verbatim>\<open>mean_squared_error\<close>, the second with \<^verbatim>\<open>squared=False\<close>. The metric functions
  take numbers: a missing target value is refused. Each variable holds the number
  the library returned.\<close>

fun numbers :: "cell list \<Rightarrow> error + real list" where
  "numbers [] = Inr []"
| "numbers (None # cs) = Inl (ValueError ''Input contains NaN'')"
| "numbers (Some v # cs) = and_then (numbers cs) (\<lambda>vs. Inr (v # vs))"

definition calculate_metrics :: "lib \<Rightarrow> state \<Rightarrow> error + state" where
  "calculate_metrics L s =
     and_then (numbers (y_test s)) (\<lambda>t.
     and_then (mean_squared_error L t (predictions s) True) (\<lambda>a.
     and_then (mean_absolute_error L t (predictions s)) (\<lambda>b.
     and_then (mean_squared_error L t (predictions s) False) (\<lambda>c.
     and_then (r2_score L t (predictions s)) (\<lambda>d.
       Inr (s\<lparr>mse := a, mae := b, rmse := c, r2 := d\<rparr>))))))"

text \<open>Lines 95-103: the model type, each hyperparameter, the four metrics and the
  fitted model are logged, in this order.\<close>

definition log_params :: "json \<Rightarrow> error + event list" where
  "log_params hp =
     (case hp of
        JObj kvs \<Rightarrow> Inr (map (\<lambda>kv. Log_param (fst kv) (snd kv)) kvs)
      | _ \<Rightarrow> Inl (TypeError ''params is not a mapping''))"

definition log_run :: "string \<Rightarrow> state \<Rightarrow> error + state" where
  "log_run model_type s =
     and_then (log_params (hyperparameters s)) (\<lambda>ps.
       Inr (s\<lparr>tracking := tracking s @ [Log_param ''model_type'' (JStr model_type)] @ ps @
                [Log_metric ''mse'' (mse s), Log_metric ''mae'' (mae s),
                 Log_metric ''rmse'' (rmse s), Log_metric ''r2'' (r2 s),
                 Log_model ''model'']\<rparr>))"

text \<open>Lines 106-114: the artifact directories are created where missing (taken to
  succeed), the configuration is dumped to \<open>config_path\<close> and the file is logged.\<close>

definition log_config :: "string \<Rightarrow> state \<Rightarrow> error + state" where
  "log_config model_type s =
     Inr (s\<lparr>written := written s @ [(config_path model_type, Json_text (config s))],
            tracking := tracking s @ [Log_artifact (config_path model_type)]\<rparr>)"

text \<open>Lines 117-124: for each column of \<open>X\<close>, in order, a boxplot is drawn, saved at
  the path made from the column's name, and logged.\<close>

fun boxplot_loop :: "lib \<Rightarrow> string list \<Rightarrow> state \<Rightarrow> error + state" where
  "boxplot_loop L [] s = Inr s"
| "boxplot_loop L (column # cs) s =
     and_then (boxplot L (''Boxplot of '' @ column) (columns_labelled (X s) column)) (\<lambda>png.
       boxplot_loop L cs
         (s\<lparr>written := written s @ [(boxplot_path column, Png png)],
            tracking := tracking s @ [Log_artifact (boxplot_path column)]\<rparr>))"

definition log_boxplots :: "lib \<Rightarrow> state \<Rightarrow> error + state" where
  "log_boxplots L s = boxplot_loop L (columns (X s)) s"

text \<open>Lines 127-134: the correlation matrix of \<open>X\<close> as a heatmap, saved and logged.\<close>

definition log_correlation :: "lib \<Rightarrow> state \<Rightarrow> error + state" where
  "log_correlation L s =
     and_then (heatmap L (X s)) (\<lambda>png.
       Inr (s\<lparr>written := written s @ [(corr_path, Png png)],
              tracking := tracking s @ [Log_artifact corr_path]\<rparr>))"

subsection \<open>The whole script\<close>

fun run_steps :: "(state \<Rightarrow> error + state) list \<Rightarrow> state \<Rightarrow> error + state" where
  "run_steps [] s = Inr s"
| "run_steps (f # fs) s = and_then (f s) (run_steps fs)"

definition script :: "lib \<Rightarrow> env \<Rightarrow> string \<Rightarrow> (state \<Rightarrow> error + state) list" where
  "script L E model_type =
     [feature_selection, imputation L, data_splitting L, model_selection model_type,
      start_run E model_type, train L, predict, calculate_metrics L,
      log_run model_type, log_config model_type, log_boxplots L, log_correlation L]"

definition pipeline :: "lib \<Rightarrow> env \<Rightarrow> string \<Rightarrow> error + state" where
  "pipeline L E model_type = and_then (load E model_type) (run_steps (script L E model_type))"

section \<open>What a run leaves behind\<close>

text \<open>The artifacts and the metrics among the logging calls, in the order of the
  calls, and the file a path holds after a sequence of writes (the last write wins).\<close>

definition logged_artifacts :: "event list \<Rightarrow> string list" where
  "logged_artifacts evs = concat (map (\<lambda>e. case e of Log_artifact p \<Rightarrow> [p] | _ \<Rightarrow> []) evs)"

definition logged_metrics :: "event list \<Rightarrow> (string \<times> real) list" where
  "logged_metrics evs = concat (map (\<lambda>e. case e of Log_metric k v \<Rightarrow> [(k, v)] | _ \<Rightarrow> []) evs)"

definition file_at :: "(string \<times> content) list \<Rightarrow> string \<Rightarrow> content option" where
  "file_at ws p = map_of (rev ws) p"

section \<open>Example inputs\<close>

text \<open>
  A library for running the script on examples: the imputation strategy \<open>mean\<close>
  (no mean without an observed value), rows dealt in their own order, an estimator
  that predicts zero, the metrics by their textbook formulas over the real numbers
  (refusing vectors of different lengths and empty ones), and plots that succeed.
\<close>

definition example_mean :: "real list \<Rightarrow> real option" where
  "example_mean xs = (if xs = [] then None else Some (sum_list xs / real (length xs)))"

definition example_metric ::
  "(real list \<Rightarrow> real list \<Rightarrow> real) \<Rightarrow> real list \<Rightarrow> real list \<Rightarrow> error + real" where
  "example_metric f y_true y_pred =
     (if length y_true = length y_pred
      then (if y_true = [] then Inl (ValueError ''Found array with 0 sample(s)'')
            else Inr (f y_true y_pred))
      else Inl (ValueError ''inconsistent numbers of samples''))"

definition example_mse :: "real list \<Rightarrow> real list \<Rightarrow> real" where
  "example_mse y_true y_pred =
     sum_list (map (\<lambda>p. (fst p - snd p)\<^sup>2) (zip y_true y_pred)) / real (length y_true)"

definition example_mae :: "real list \<Rightarrow> real list \<Rightarrow> real" where
  "example_mae y_true y_pred =
     sum_list (map (\<lambda>p. \<bar>fst p - snd p\<bar>) (zip y_true y_pred)) / real (length y_true)"

definition example_r2 :: "real list \<Rightarrow> real list \<Rightarrow> real" where
  "example_r2 y_true y_pred =
     (let m = sum_list y_true / real (length y_true);
          ss_res = sum_list (map (\<lambda>p. (fst p - snd p)\<^sup>2) (zip y_true y_pred));
          ss_tot = sum_list (map (\<lambda>v. (v - m)\<^sup>2) y_true)
      in if ss_tot = 0 then (if ss_res = 0 then 1 else 0) else 1 - ss_res / ss_tot)"

definition example_lib :: lib where
  "example_lib =
     \<lparr>strategies = (\<lambda>nm. if nm = ''mean'' then Some example_mean else None),
      shuffle_key = (\<lambda>seed n i. i),
      fit = (\<lambda>est d t. Inr (\<lambda>q. Inr (map (\<lambda>r. 0) (rows q)))),
      mean_squared_error =
        (\<lambda>t ps squared.
           example_metric (\<lambda>a b. if squared then example_mse a b else sqrt (example_mse a b)) t ps),
      mean_absolute_error = example_metric example_mae,
      r2_score = example_metric example_r2,
      boxplot = (\<lambda>title d. Inr ''png''),
      heatmap = (\<lambda>d. Inr ''png'')\<rparr>"

text \<open>The configuration of the concrete scenario (specification, section 8). The
  scenario lists the fields by their last names; \<open>features_to_keep\<close> is the field
  \<open>feature_selection.features_to_keep\<close> of the data model (specification, section 3),
  which is where the script reads it (line 41).\<close>

definition scenario_config :: json where
  "scenario_config =
     JObj [(''feature_selection'', JObj [(''features_to_keep'', JArr [JStr ''a'', JStr ''b''])]),
           (''target_variable'', JStr ''y''),
           (''missing_value_imputation'', JObj [(''enabled'', JBool False)]),
           (''data_split'', JObj [(''test_size'', JNum 0.2), (''random_state'', JNum 42)]),
           (''model'', JObj [(''hyperparameters'', JObj [(''n_estimators'', JNum 10)])])]"

definition ten_rows :: frame where
  "ten_rows =
     \<lparr>columns = [''a'', ''b'', ''y''],
      rows = [[Some 0, Some 1, Some 1], [Some 1, Some 1, Some 2], [Some 2, Some 0, Some 2],
              [Some 3, Some 1, Some 4], [Some 4, Some 0, Some 4], [Some 5, Some 1, Some 6],
              [Some 6, Some 0, Some 6], [Some 7, Some 1, Some 8], [Some 8, Some 0, Some 8],
              [Some 9, Some 1, Some 10]]\<rparr>"

definition env_with :: "json \<Rightarrow> frame \<Rightarrow> env" where
  "env_with cfg d =
     \<lparr>config_files = (\<lambda>p. if p = ''configs/RandomForest.json'' then Content cfg else NoFile),
      csv_files = (\<lambda>p. if p = data_path then Content d else NoFile),
      now = ''2024-01-01 00:00:00''\<rparr>"

text \<open>A configuration with mean imputation, and a table with two missing cells.\<close>

definition imputing_config :: json where
  "imputing_config =
     JObj [(''feature_selection'', JObj [(''features_to_keep'', JArr [JStr ''a'', JStr ''b''])]),
           (''target_variable'', JStr ''y''),
           (''missing_value_imputation'',
              JObj [(''enabled'', JBool True), (''strategy'', JStr ''mean'')]),
           (''data_split'', JObj [(''test_size'', JNum 0.2), (''random_state'', JNum 42)]),
           (''model'', JObj [(''hyperparameters'', JObj [(''n_estimators'', JNum 10)])])]"

definition gappy_rows :: frame where
  "gappy_rows =
     \<lparr>columns = [''a'', ''b'', ''y''],
      rows = [[Some 1, None, Some 0], [None, Some 4, Some 1], [Some 3, Some 6, Some 0]]\<rparr>"

text \<open>The same table with no value at all in column \<open>b\<close>.\<close>

definition hollow_rows :: frame where
  "hollow_rows =
     \<lparr>columns = [''a'', ''b'', ''y''],
      rows = [[Some 1, None, Some 0], [Some 2, None, Some 1], [Some 3, None, Some 0]]\<rparr>"

text \<open>The state of the first example after feature selection and after imputation,
  and the state of the second after feature selection.\<close>

definition gappy_selected :: state where
  "gappy_selected =
     (loaded imputing_config gappy_rows)
       \<lparr>features := [''a'', ''b''],
        X := \<lparr>columns = [''a'', ''b''],
              rows = [[Some 1, None], [None, Some 4], [Some 3, Some 6]]\<rparr>,
        y := [Some 0, Some 1, Some 0]\<rparr>"

definition gappy_imputed :: state where
  "gappy_imputed =
     gappy_selected
       \<lparr>X := \<lparr>columns = [''a'', ''b''],
              rows = [[Some 1, Some 5], [Some 2, Some 4], [Some 3, Some 6]]\<rparr>\<rparr>"

definition hollow_selected :: state where
  "hollow_selected =
     (loaded imputing_config hollow_rows)
       \<lparr>features := [''a'', ''b''],
        X := \<lparr>columns = [''a'', ''b''],
              rows = [[Some 1, None], [Some 2, None], [Some 3, None]]\<rparr>,
        y := [Some 0, Some 1, Some 0]\<rparr>"

text \<open>The state after feature selection with labels \<open>ls\<close>, feature matrix \<open>x\<close> and
  target \<open>t\<close>, and the state after the split into the four parts.\<close>

definition selected :: "json \<Rightarrow> frame \<Rightarrow> string list \<Rightarrow> frame \<Rightarrow> cell list \<Rightarrow> state" where
  "selected cfg d ls x t = (loaded cfg d)\<lparr>features := ls, X := x, y := t\<rparr>"

definition parted :: "state \<Rightarrow> frame \<times> frame \<times> cell list \<times> cell list \<Rightarrow> state" where
  "parted s parts =
     s\<lparr>X_train := fst parts, X_test := fst (snd parts),
       y_train := fst (snd (snd parts)), y_test := snd (snd (snd parts))\<rparr>"

section \<open>Basic facts\<close>

lemma and_then_Inl [simp]: "and_then (Inl e) f = Inl e"
  by (simp add: and_then_def)

lemma and_then_Inr [simp]: "and_then (Inr v) f = f v"
  by (simp add: and_then_def)

lemma and_then_eq_Inr: "and_then r f = Inr b \<longleftrightarrow> (\<exists>a. r = Inr a \<and> f a = Inr b)"
  by (cases r) simp_all

lemma logged_artifacts_append [simp]:
  "logged_artifacts (xs @ ys) = logged_artifacts xs @ logged_artifacts ys"
  by (simp add: logged_artifacts_def)

lemma logged_artifacts_simps [simp]:
  "logged_artifacts [] = []"
  "logged_artifacts (Log_artifact p # evs) = p # logged_artifacts evs"
  "logged_artifacts (Log_param k v # evs) = logged_artifacts evs"
  "logged_artifacts (Log_metric k r # evs) = logged_artifacts evs"
  "logged_artifacts (Log_model k # evs) = logged_artifacts evs"
  by (simp_all add: logged_artifacts_def)

lemma logged_metrics_append [simp]:
  "logged_metrics (xs @ ys) = logged_metrics xs @ logged_metrics ys"
  by (simp add: logged_metrics_def)

lemma logged_metrics_simps [simp]:
  "logged_metrics [] = []"
  "logged_metrics (Log_artifact p # evs) = logged_metrics evs"
  "logged_metrics (Log_param k v # evs) = logged_metrics evs"
  "logged_metrics (Log_metric k r # evs) = (k, r) # logged_metrics evs"
  "logged_metrics (Log_model k # evs) = logged_metrics evs"
  by (simp_all add: logged_metrics_def)



section \<open>The effect of each statement\<close>

lemma load_effect:
  assumes "load E model_type = Inr s0"
  shows "\<exists>path cfg d. map_of model_config_files model_type = Some path
           \<and> config_files E path = Content cfg \<and> csv_files E data_path = Content d
           \<and> s0 = loaded cfg d"
  using assms by (auto simp: load_def split: option.splits stored.splits)


lemma select_columns_shape:
  assumes "select_columns d ls = Inr x"
  shows "columns x = ls \<and> length (rows x) = length (rows d)
         \<and> list_all (\<lambda>r. length r = length ls) (rows x)"
  using assms by (auto simp: select_columns_def list_all_iff split: list.splits)


lemma feature_selection_effect:
  assumes "feature_selection s = Inr s'"
  shows "\<exists>fs fk ls x tl t. getitem (config s) ''feature_selection'' = Inr fs
           \<and> getitem fs ''features_to_keep'' = Inr fk \<and> labels fk = Inr ls
           \<and> select_columns (df s) ls = Inr x \<and> get_column (df s) tl = Inr t
           \<and> s' = s\<lparr>features := ls, X := x, y := t\<rparr>"
proof -
  from assms obtain fs fk ls x tl t where
    "getitem (config s) ''feature_selection'' = Inr fs"
    "getitem fs ''features_to_keep'' = Inr fk" "labels fk = Inr ls"
    "select_columns (df s) ls = Inr x" "get_column (df s) tl = Inr t"
    "s' = s\<lparr>features := ls, X := x, y := t\<rparr>"
    by (auto simp: feature_selection_def and_then_eq_Inr)
  then show ?thesis by blast
qed

lemma imputation_effect:
  assumes "imputation L s = Inr s'"
  shows "\<exists>x. s' = s\<lparr>X := x\<rparr>"
proof -
  from assms consider (off) "s' = s" | (on) x where "s' = s\<lparr>X := x\<rparr>"
    by (auto simp: imputation_def and_then_eq_Inr split: if_splits)
  then show ?thesis
  proof cases
    case off
    then have "s' = s\<lparr>X := X s\<rparr>" by simp
    then show ?thesis by (rule exI)
  next
    case on
    then show ?thesis by (rule exI)
  qed
qed

lemma data_splitting_effect:
  assumes "data_splitting L s = Inr s'"
  shows "\<exists>a b c d. s' = s\<lparr>X_train := a, X_test := b, y_train := c, y_test := d\<rparr>"
  using assms by (auto simp: data_splitting_def and_then_eq_Inr)

lemma model_selection_effect:
  assumes "model_selection model_type s = Inr s'"
  shows "\<exists>m hp est. getitem (config s) ''model'' = Inr m
           \<and> getitem m ''hyperparameters'' = Inr hp \<and> dispatch model_type hp = Inr est
           \<and> s' = s\<lparr>hyperparameters := hp, model := Some est\<rparr>"
  using assms by (auto simp: model_selection_def and_then_eq_Inr)

lemma start_run_effect:
  "start_run E model_type s = Inr s' \<Longrightarrow> s' = s\<lparr>run_name := model_type @ '' run '' @ now E\<rparr>"
  by (auto simp: start_run_def)

lemma train_effect:
  assumes "train L s = Inr s'"
  shows "\<exists>est p. model s = Some est \<and> fit L est (X_train s) (y_train s) = Inr p
           \<and> s' = s\<lparr>fitted := Some p\<rparr>"
  using assms by (auto simp: train_def and_then_eq_Inr split: option.splits)

lemma predict_effect:
  assumes "predict s = Inr s'"
  shows "\<exists>p ps. fitted s = Some p \<and> p (X_test s) = Inr ps \<and> s' = s\<lparr>predictions := ps\<rparr>"
  using assms by (auto simp: predict_def and_then_eq_Inr split: option.splits)

lemma calculate_metrics_effect:
  assumes "calculate_metrics L s = Inr s'"
  shows "\<exists>t a b c d. numbers (y_test s) = Inr t
           \<and> mean_squared_error L t (predictions s) True = Inr a
           \<and> mean_absolute_error L t (predictions s) = Inr b
           \<and> mean_squared_error L t (predictions s) False = Inr c
           \<and> r2_score L t (predictions s) = Inr d
           \<and> s' = s\<lparr>mse := a, mae := b, rmse := c, r2 := d\<rparr>"
  using assms by (auto simp: calculate_metrics_def and_then_eq_Inr)


lemma log_run_effect:
  assumes "log_run model_type s = Inr s'"
  shows "\<exists>ps. log_params (hyperparameters s) = Inr ps
           \<and> s' = s\<lparr>tracking := tracking s @ [Log_param ''model_type'' (JStr model_type)] @ ps @
                [Log_metric ''mse'' (mse s), Log_metric ''mae'' (mae s),
                 Log_metric ''rmse'' (rmse s), Log_metric ''r2'' (r2 s),
                 Log_model ''model'']\<rparr>"
  using assms by (auto simp: log_run_def and_then_eq_Inr)

lemma log_config_effect:
  "log_config model_type s = Inr s' \<Longrightarrow>
     s' = s\<lparr>written := written s @ [(config_path model_type, Json_text (config s))],
            tracking := tracking s @ [Log_artifact (config_path model_type)]\<rparr>"
  by (auto simp: log_config_def)

lemma boxplot_loop_effect:
  "boxplot_loop L cs s = Inr s' \<Longrightarrow>
     \<exists>pngs. length pngs = length cs
       \<and> s' = s\<lparr>written := written s @ zip (map boxplot_path cs) (map Png pngs),
                tracking := tracking s @ map (\<lambda>c. Log_artifact (boxplot_path c)) cs\<rparr>"
proof (induction cs arbitrary: s)
  case Nil
  then show ?case by simp
next
  case (Cons c cs)
  from Cons.prems obtain png where
    run: "boxplot_loop L cs
            (s\<lparr>written := written s @ [(boxplot_path c, Png png)],
               tracking := tracking s @ [Log_artifact (boxplot_path c)]\<rparr>) = Inr s'"
    by (auto simp: and_then_eq_Inr)
  from Cons.IH [OF run] obtain pngs where
    "length pngs = length cs" and
    "s' = s\<lparr>written := written s @ zip (map boxplot_path (c # cs)) (map Png (png # pngs)),
             tracking := tracking s @ map (\<lambda>c. Log_artifact (boxplot_path c)) (c # cs)\<rparr>"
    by auto
  then show ?case
    by (intro exI [of _ "png # pngs"]) simp
qed

lemma log_boxplots_effect:
  assumes "log_boxplots L s = Inr s'"
  shows "\<exists>pngs. length pngs = length (columns (X s))
       \<and> s' = s\<lparr>written := written s @ zip (map boxplot_path (columns (X s))) (map Png pngs),
                tracking := tracking s @ map (\<lambda>c. Log_artifact (boxplot_path c)) (columns (X s))\<rparr>"
  using assms boxplot_loop_effect [of L "columns (X s)" s s'] by (simp add: log_boxplots_def)

lemma log_correlation_effect:
  assumes "log_correlation L s = Inr s'"
  shows "\<exists>png. s' = s\<lparr>written := written s @ [(corr_path, Png png)],
                        tracking := tracking s @ [Log_artifact corr_path]\<rparr>"
  using assms by (auto simp: log_correlation_def and_then_eq_Inr)

section \<open>The run as a whole\<close>

lemma pipeline_steps:
  assumes "pipeline L E model_type = Inr s"
  obtains s0 s1 s2 s3 s4 s5 s6 s7 s8 s9 s10 s11 where
    "load E model_type = Inr s0" "feature_selection s0 = Inr s1" "imputation L s1 = Inr s2"
    "data_splitting L s2 = Inr s3" "model_selection model_type s3 = Inr s4"
    "start_run E model_type s4 = Inr s5" "train L s5 = Inr s6" "predict s6 = Inr s7"
    "calculate_metrics L s7 = Inr s8" "log_run model_type s8 = Inr s9"
    "log_config model_type s9 = Inr s10" "log_boxplots L s10 = Inr s11"
    "log_correlation L s11 = Inr s"
  using assms by (auto simp: pipeline_def script_def and_then_eq_Inr)

lemma pipeline_run:
  assumes "pipeline L E model_type = Inr s"
  obtains s0 s1 s2 s3 ps pngs png where
    "load E model_type = Inr s0" "feature_selection s0 = Inr s1"
    "imputation L s1 = Inr s2" "data_splitting L s2 = Inr s3"
    "config s = config s0" "df s = df s0" "features s = features s1" "X s = X s2"
    "X_train s = X_train s3" "X_test s = X_test s3"
    "y_train s = y_train s3" "y_test s = y_test s3"
    "log_params (hyperparameters s) = Inr ps"
    "tracking s = Log_param ''model_type'' (JStr model_type) # ps @
       [Log_metric ''mse'' (mse s), Log_metric ''mae'' (mae s),
        Log_metric ''rmse'' (rmse s), Log_metric ''r2'' (r2 s),
        Log_model ''model'', Log_artifact (config_path model_type)] @
       map (\<lambda>c. Log_artifact (boxplot_path c)) (columns (X s2)) @ [Log_artifact corr_path]"
    "written s = (config_path model_type, Json_text (config s0)) #
       zip (map boxplot_path (columns (X s2))) (map Png pngs) @ [(corr_path, Png png)]"
    "length pngs = length (columns (X s2))"
proof -
  from assms obtain s0 s1 s2 s3 s4 s5 s6 s7 s8 s9 s10 s11 where
    st: "load E model_type = Inr s0" "feature_selection s0 = Inr s1" "imputation L s1 = Inr s2"
    "data_splitting L s2 = Inr s3" "model_selection model_type s3 = Inr s4"
    "start_run E model_type s4 = Inr s5" "train L s5 = Inr s6" "predict s6 = Inr s7"
    "calculate_metrics L s7 = Inr s8" "log_run model_type s8 = Inr s9"
    "log_config model_type s9 = Inr s10" "log_boxplots L s10 = Inr s11"
    "log_correlation L s11 = Inr s"
    by (rule pipeline_steps)
  from load_effect [OF st(1)] obtain cfg d where s0: "s0 = loaded cfg d" by blast
  from feature_selection_effect [OF st(2)] obtain ls x t where
    s1: "s1 = s0\<lparr>features := ls, X := x, y := t\<rparr>" by blast
  from imputation_effect [OF st(3)] obtain x2 where s2: "s2 = s1\<lparr>X := x2\<rparr>" by blast
  from data_splitting_effect [OF st(4)] obtain a b c e where
    s3: "s3 = s2\<lparr>X_train := a, X_test := b, y_train := c, y_test := e\<rparr>" by blast
  from model_selection_effect [OF st(5)] obtain hp est where
    s4: "s4 = s3\<lparr>hyperparameters := hp, model := Some est\<rparr>" by blast
  note s5 = start_run_effect [OF st(6)]
  from train_effect [OF st(7)] obtain p where s6: "s6 = s5\<lparr>fitted := Some p\<rparr>" by blast
  from predict_effect [OF st(8)] obtain qs where s7: "s7 = s6\<lparr>predictions := qs\<rparr>" by blast
  from calculate_metrics_effect [OF st(9)] obtain m1 m2 m3 m4 where
    s8: "s8 = s7\<lparr>mse := m1, mae := m2, rmse := m3, r2 := m4\<rparr>" by blast
  from log_run_effect [OF st(10)] obtain ps where
    ps: "log_params (hyperparameters s8) = Inr ps" and
    s9: "s9 = s8\<lparr>tracking := tracking s8 @ [Log_param ''model_type'' (JStr model_type)] @ ps @
                [Log_metric ''mse'' (mse s8), Log_metric ''mae'' (mae s8),
                 Log_metric ''rmse'' (rmse s8), Log_metric ''r2'' (r2 s8),
                 Log_model ''model'']\<rparr>" by blast
  note s10 = log_config_effect [OF st(11)]
  from log_boxplots_effect [OF st(12)] obtain pngs where
    len: "length pngs = length (columns (X s10))" and
    s11: "s11 = s10\<lparr>written := written s10 @ zip (map boxplot_path (columns (X s10))) (map Png pngs),
                tracking := tracking s10 @ map (\<lambda>c. Log_artifact (boxplot_path c)) (columns (X s10))\<rparr>"
    by blast
  from log_correlation_effect [OF st(13)] obtain png where
    s: "s = s11\<lparr>written := written s11 @ [(corr_path, Png png)],
                 tracking := tracking s11 @ [Log_artifact corr_path]\<rparr>" by blast
  have X10: "X s10 = X s2"
    by (simp add: s10 s9 s8 s7 s6 s5 s4 s3)
  have early: "tracking s8 = []" "written s9 = []"
    by (simp_all add: s9 s8 s7 s6 s5 s4 s3 s2 s1 s0 loaded_def)
  have f1: "config s = config s0" "df s = df s0" "features s = features s1" "X s = X s2"
    by (simp_all add: s s11 s10 s9 s8 s7 s6 s5 s4 s3 s2 s1)
  have f2: "X_train s = X_train s3" "X_test s = X_test s3"
    "y_train s = y_train s3" "y_test s = y_test s3"
    by (simp_all add: s s11 s10 s9 s8 s7 s6 s5 s4)
  have f3: "hyperparameters s = hyperparameters s8" "mse s = mse s8" "mae s = mae s8"
    "rmse s = rmse s8" "r2 s = r2 s8" "config s9 = config s0"
    by (simp_all add: s s11 s10 s9 s8 s7 s6 s5 s4 s3 s2 s1)
  from len X10 have len': "length pngs = length (columns (X s2))" by simp
  from s11 X10 have s11':
    "s11 = s10\<lparr>written := written s10 @ zip (map boxplot_path (columns (X s2))) (map Png pngs),
              tracking := tracking s10 @ map (\<lambda>c. Log_artifact (boxplot_path c)) (columns (X s2))\<rparr>"
    by simp
  have t10: "tracking s10 = Log_param ''model_type'' (JStr model_type) # ps @
       [Log_metric ''mse'' (mse s), Log_metric ''mae'' (mae s),
        Log_metric ''rmse'' (rmse s), Log_metric ''r2'' (r2 s),
        Log_model ''model'', Log_artifact (config_path model_type)]"
    using early(1) by (simp add: f3(2-5)) (simp add: s10 s9)
  have w10: "written s10 = [(config_path model_type, Json_text (config s0))]"
    using early(2) f3(6) by (simp add: s10)
  have tr: "tracking s = Log_param ''model_type'' (JStr model_type) # ps @
       [Log_metric ''mse'' (mse s), Log_metric ''mae'' (mae s),
        Log_metric ''rmse'' (rmse s), Log_metric ''r2'' (r2 s),
        Log_model ''model'', Log_artifact (config_path model_type)] @
       map (\<lambda>c. Log_artifact (boxplot_path c)) (columns (X s2)) @ [Log_artifact corr_path]"
    using t10 by (simp add: s s11')
  have wr: "written s = (config_path model_type, Json_text (config s0)) #
       zip (map boxplot_path (columns (X s2))) (map Png pngs) @ [(corr_path, Png png)]"
    using w10 by (simp add: s s11')
  from ps f3(1) have ps': "log_params (hyperparameters s) = Inr ps" by simp
  show thesis
    by (rule that [OF st(1-4) f1 f2 ps' tr wr len'])
qed


section \<open>The split\<close>

lemma train_test_split_sizes:
  assumes "train_test_split L d t (JNum ts) rs = Inr parts"
  shows "length (rows (fst parts)) = length (rows d) - nat \<lceil>ts * real (length (rows d))\<rceil>
       \<and> length (rows (fst (snd parts))) = nat \<lceil>ts * real (length (rows d))\<rceil>
       \<and> length (fst (snd (snd parts))) = length (rows d) - nat \<lceil>ts * real (length (rows d))\<rceil>
       \<and> length (snd (snd (snd parts))) = nat \<lceil>ts * real (length (rows d))\<rceil>"
  using assms
  by (auto simp: train_test_split_def Let_def take_rows_def split: if_splits)

lemma train_test_split_not_empty:
  assumes "train_test_split L d t test_size rs = Inr parts"
  shows "rows (fst parts) \<noteq> [] \<and> rows (fst (snd parts)) \<noteq> []"
proof -
  define n where "n = length (rows d)"
  from assms obtain ts where ts: "test_size = JNum ts" "0 < ts" "ts < 1"
    and left: "n - nat \<lceil>ts * real n\<rceil> \<noteq> 0"
    by (auto simp: train_test_split_def Let_def n_def split: if_splits json.splits)
  from left have "0 < n" by arith
  with ts(2) have "0 < ts * real n" by simp
  then have some: "0 < nat \<lceil>ts * real n\<rceil>" by simp
  from train_test_split_sizes [of L d t ts rs parts] assms ts(1)
  have "length (rows (fst parts)) = n - nat \<lceil>ts * real n\<rceil>"
    and "length (rows (fst (snd parts))) = nat \<lceil>ts * real n\<rceil>"
    by (simp_all add: n_def)
  with left some have "0 < length (rows (fst parts))" "0 < length (rows (fst (snd parts)))"
    by simp_all
  then show ?thesis by simp
qed


section \<open>The concrete scenario, statement by statement\<close>

lemma scenario_imputation_off:
  assumes "config s = scenario_config"
  shows "imputation L s = Inr s"
  using assms by (simp add: imputation_def scenario_config_def)

lemma scenario_selection_step:
  assumes "select_columns d [''a'', ''b''] = Inr X0" and "get_column d ''y'' = Inr y0"
  shows "feature_selection (loaded scenario_config d)
           = Inr (selected scenario_config d [''a'', ''b''] X0 y0)"
  using assms
  by (simp add: feature_selection_def loaded_def scenario_config_def selected_def)

lemma scenario_imputation_step:
  "imputation L (selected scenario_config d ls X0 y0) = Inr (selected scenario_config d ls X0 y0)"
  by (rule scenario_imputation_off) (simp add: selected_def loaded_def)

lemma scenario_split_step:
  "data_splitting L (selected scenario_config d ls X0 y0)
     = and_then (train_test_split L X0 y0 (JNum 0.2) (JNum 42))
         (\<lambda>parts. Inr (parted (selected scenario_config d ls X0 y0) parts))"
  by (simp add: data_splitting_def selected_def loaded_def scenario_config_def parted_def)


lemma scenario_forward:
  assumes ld: "load E ''RandomForestRegressor'' = Inr (loaded scenario_config d)"
    and x0: "select_columns d [''a'', ''b''] = Inr X0" and y0: "get_column d ''y'' = Inr y0"
    and sp: "train_test_split L X0 y0 (JNum 0.2) (JNum 42) = Inr (Xtr, Xte, ytr, yte)"
    and ft: "fit L (RandomForestRegressor [(''n_estimators'', JNum 10)]) Xtr ytr = Inr p"
    and pr: "p Xte = Inr ps" and nm: "numbers yte = Inr t"
    and m1: "mean_squared_error L t ps True = Inr m1"
    and m2: "mean_absolute_error L t ps = Inr m2"
    and m3: "mean_squared_error L t ps False = Inr m3"
    and m4: "r2_score L t ps = Inr m4"
    and pa: "boxplot L ''Boxplot of a'' (columns_labelled X0 ''a'') = Inr png_a"
    and pb: "boxplot L ''Boxplot of b'' (columns_labelled X0 ''b'') = Inr png_b"
    and pc: "heatmap L X0 = Inr png_c"
  shows "\<exists>s. pipeline L E ''RandomForestRegressor'' = Inr s
           \<and> X_train s = Xtr \<and> X_test s = Xte \<and> y_train s = ytr \<and> y_test s = yte
           \<and> predictions s = ps
           \<and> mse s = m1 \<and> mae s = m2 \<and> rmse s = m3 \<and> r2 s = m4
           \<and> logged_metrics (tracking s)
               = [(''mse'', m1), (''mae'', m2), (''rmse'', m3), (''r2'', m4)]"
proof -
  let ?mt = "''RandomForestRegressor''"
  let ?s1 = "selected scenario_config d [''a'', ''b''] X0 y0"
  let ?s3 = "parted ?s1 (Xtr, Xte, ytr, yte)"
  let ?hp = "JObj [(''n_estimators'', JNum 10)]"
  let ?s4 = "?s3\<lparr>hyperparameters := ?hp,
                 model := Some (RandomForestRegressor [(''n_estimators'', JNum 10)])\<rparr>"
  let ?s5 = "?s4\<lparr>run_name := ?mt @ '' run '' @ now E\<rparr>"
  let ?s6 = "?s5\<lparr>fitted := Some p\<rparr>"
  let ?s7 = "?s6\<lparr>predictions := ps\<rparr>"
  let ?s8 = "?s7\<lparr>mse := m1, mae := m2, rmse := m3, r2 := m4\<rparr>"
  let ?s9 = "?s8\<lparr>tracking := [Log_param ''model_type'' (JStr ?mt),
                 Log_param ''n_estimators'' (JNum 10),
                 Log_metric ''mse'' m1, Log_metric ''mae'' m2,
                 Log_metric ''rmse'' m3, Log_metric ''r2'' m4, Log_model ''model'']\<rparr>"
  let ?s10 = "?s9\<lparr>written := [(config_path ?mt, Json_text scenario_config)],
                 tracking := tracking ?s9 @ [Log_artifact (config_path ?mt)]\<rparr>"
  let ?s11 = "?s10\<lparr>written := written ?s10
                    @ [(boxplot_path ''a'', Png png_a), (boxplot_path ''b'', Png png_b)],
                 tracking := tracking ?s10
                    @ [Log_artifact (boxplot_path ''a''), Log_artifact (boxplot_path ''b'')]\<rparr>"
  let ?s12 = "?s11\<lparr>written := written ?s11 @ [(corr_path, Png png_c)],
                 tracking := tracking ?s11 @ [Log_artifact corr_path]\<rparr>"
  from select_columns_shape [OF x0] have cx: "columns X0 = [''a'', ''b'']" by simp
  have f1: "feature_selection (loaded scenario_config d) = Inr ?s1"
    by (rule scenario_selection_step [OF x0 y0])
  have f2: "imputation L ?s1 = Inr ?s1"
    by (rule scenario_imputation_step)
  have f3: "data_splitting L ?s1 = Inr ?s3"
    using sp by (simp add: scenario_split_step)
  have f4: "model_selection ?mt ?s3 = Inr ?s4"
    by (simp add: model_selection_def dispatch_def construct_def parted_def selected_def
        loaded_def scenario_config_def)
  have f5: "start_run E ?mt ?s4 = Inr ?s5"
    by (simp add: start_run_def)
  have f6: "train L ?s5 = Inr ?s6"
    by (simp add: train_def parted_def ft)
  have f7: "predict ?s6 = Inr ?s7"
    by (simp add: predict_def parted_def pr)
  have f8: "calculate_metrics L ?s7 = Inr ?s8"
    by (simp add: calculate_metrics_def parted_def nm m1 m2 m3 m4)
  have f9: "log_run ?mt ?s8 = Inr ?s9"
    by (simp add: log_run_def log_params_def parted_def selected_def loaded_def)
  have f10: "log_config ?mt ?s9 = Inr ?s10"
    by (simp add: log_config_def parted_def selected_def loaded_def)
  have f11: "log_boxplots L ?s10 = Inr ?s11"
    by (simp add: log_boxplots_def parted_def selected_def cx pa pb)
  have f12: "log_correlation L ?s11 = Inr ?s12"
    by (simp add: log_correlation_def parted_def selected_def pc)
  have "pipeline L E ?mt = Inr ?s12"
    unfolding pipeline_def script_def ld and_then_Inr run_steps.simps
      f1 f2 f3 f4 f5 f6 f7 f8 f9 f10 f11 f12 ..
  moreover have "X_train ?s12 = Xtr" "X_test ?s12 = Xte" "y_train ?s12 = ytr" "y_test ?s12 = yte"
    "predictions ?s12 = ps" "mse ?s12 = m1" "mae ?s12 = m2" "rmse ?s12 = m3" "r2 ?s12 = m4"
    "logged_metrics (tracking ?s12)
       = [(''mse'', m1), (''mae'', m2), (''rmse'', m3), (''r2'', m4)]"
    by (simp_all add: parted_def)
  ultimately show ?thesis by blast
qed

section \<open>The example runs\<close>

lemma scenario_load:
  "load (env_with cfg d) ''RandomForestRegressor'' = Inr (loaded cfg d)"
  by (simp add: load_def model_config_files_def env_with_def)

lemma ten_rows_features:
  "select_columns ten_rows [''a'', ''b''] =
     Inr \<lparr>columns = [''a'', ''b''],
          rows = [[Some 0, Some 1], [Some 1, Some 1], [Some 2, Some 0],
                  [Some 3, Some 1], [Some 4, Some 0], [Some 5, Some 1],
                  [Some 6, Some 0], [Some 7, Some 1], [Some 8, Some 0],
                  [Some 9, Some 1]]\<rparr>"
  by (simp add: select_columns_def ten_rows_def cell_at_def)

lemma ten_rows_target:
  "get_column ten_rows ''y'' =
     Inr [Some 1, Some 2, Some 2, Some 4, Some 4, Some 6, Some 6, Some 8, Some 8, Some 10]"
  by (simp add: get_column_def ten_rows_def cell_at_def)

lemma ten_rows_split:
  "train_test_split example_lib
     \<lparr>columns = [''a'', ''b''],
      rows = [[Some 0, Some 1], [Some 1, Some 1], [Some 2, Some 0],
              [Some 3, Some 1], [Some 4, Some 0], [Some 5, Some 1],
              [Some 6, Some 0], [Some 7, Some 1], [Some 8, Some 0],
              [Some 9, Some 1]]\<rparr>
     [Some 1, Some 2, Some 2, Some 4, Some 4, Some 6, Some 6, Some 8, Some 8, Some 10]
     (JNum 0.2) (JNum 42) =
   Inr (\<lparr>columns = [''a'', ''b''],
         rows = [[Some 2, Some 0], [Some 3, Some 1], [Some 4, Some 0], [Some 5, Some 1],
                 [Some 6, Some 0], [Some 7, Some 1], [Some 8, Some 0], [Some 9, Some 1]]\<rparr>,
        \<lparr>columns = [''a'', ''b''], rows = [[Some 0, Some 1], [Some 1, Some 1]]\<rparr>,
        [Some 2, Some 4, Some 4, Some 6, Some 6, Some 8, Some 8, Some 10],
        [Some 1, Some 2])"
  by (simp add: train_test_split_def example_lib_def take_rows_def Let_def upt_rec)

lemma example_fit:
  "fit example_lib est d t = Inr (\<lambda>q. Inr (map (\<lambda>r. 0) (rows q)))"
  by (simp add: example_lib_def)

lemma example_metrics:
  "mean_squared_error example_lib [1, 2] [0, 0] True = Inr (example_mse [1, 2] [0, 0])"
  "mean_absolute_error example_lib [1, 2] [0, 0] = Inr (example_mae [1, 2] [0, 0])"
  "mean_squared_error example_lib [1, 2] [0, 0] False = Inr (sqrt (example_mse [1, 2] [0, 0]))"
  "r2_score example_lib [1, 2] [0, 0] = Inr (example_r2 [1, 2] [0, 0])"
  by (simp_all add: example_lib_def example_metric_def)

lemma example_plots:
  "boxplot example_lib title d = Inr ''png''" "heatmap example_lib d = Inr ''png''"
  by (simp_all add: example_lib_def)

lemma scenario_run:
  "\<exists>s. pipeline example_lib (env_with scenario_config ten_rows) ''RandomForestRegressor'' = Inr s"
proof -
  have p: "(\<lambda>q. Inr (map (\<lambda>r. 0) (rows q)) :: error + real list)
      \<lparr>columns = [''a'', ''b''], rows = [[Some 0, Some 1], [Some 1, Some 1]]\<rparr> = Inr [0, 0]"
    by simp
  have t: "numbers [Some 1, Some 2] = Inr [1, 2]" by simp
  from scenario_forward [OF scenario_load ten_rows_features ten_rows_target ten_rows_split
      example_fit p t example_metrics example_plots(1) example_plots(1) example_plots(2)]
  show ?thesis by blast
qed

lemma gappy_features:
  "feature_selection (loaded imputing_config gappy_rows) = Inr gappy_selected"
  by (simp add: feature_selection_def loaded_def imputing_config_def gappy_rows_def
      select_columns_def get_column_def cell_at_def gappy_selected_def)

lemma gappy_imputation: "imputation example_lib gappy_selected = Inr gappy_imputed"
  by (simp add: imputation_def loaded_def imputing_config_def fit_transform_def example_lib_def
      fill_values_def observed_def cell_at_def example_mean_def DataFrame_def
      gappy_selected_def gappy_imputed_def)

lemma hollow_features:
  "feature_selection (loaded imputing_config hollow_rows) = Inr hollow_selected"
  by (simp add: feature_selection_def loaded_def imputing_config_def hollow_rows_def
      select_columns_def get_column_def cell_at_def hollow_selected_def)

lemma hollow_imputation:
  "imputation example_lib hollow_selected
     = Inl (ValueError ''Shape of passed values does not match the columns'')"
  by (simp add: imputation_def loaded_def imputing_config_def fit_transform_def example_lib_def
      fill_values_def observed_def cell_at_def example_mean_def DataFrame_def
      hollow_selected_def)

section \<open>Selecting the model type\<close>

lemma load_unlisted:
  "map_of model_config_files model_type = None \<Longrightarrow> load E model_type = Inl (KeyError model_type)"
  by (simp add: load_def)

lemma pipeline_unlisted:
  "map_of model_config_files model_type = None \<Longrightarrow>
     pipeline L E model_type = Inl (KeyError model_type)"
  by (simp add: pipeline_def load_unlisted)

text \<open>
  C1. The claim: a model type outside RandomForestRegressor, LogisticRegression, SVR,
  XGBRegressor raises the ValueError "Model type ... is not supported." before any
  training. The script looks the model type up in \<open>model_config_files\<close> on line 34,
  before the dispatch of lines 60-69, so such a string never reaches the \<open>else\<close>
  branch: for \<open>DecisionTreeRegressor\<close>, whatever the libraries and the files are, the
  run ends with KeyError at the lookup, while the dispatch alone would have raised
  the ValueError of the claim.
\<close>

theorem unsupported_model_type_is_a_key_error:
  "pipeline L E ''DecisionTreeRegressor'' = Inl (KeyError ''DecisionTreeRegressor'')
   \<and> dispatch ''DecisionTreeRegressor'' hp
       = Inl (ValueError ''Model type DecisionTreeRegressor is not supported.'')"
  by (simp add: pipeline_unlisted model_config_files_def dispatch_def)

text \<open>
  C2. Selecting \<open>SVR\<close> fails: \<open>model_config_files\<close> has no entry for it, so the run
  ends with KeyError at the configuration lookup, whatever the libraries and the
  files are, although the dispatch has a branch that constructs an SVR.
\<close>

theorem svr_fails_at_config_lookup:
  "map_of model_config_files ''SVR'' = None
   \<and> pipeline L E ''SVR'' = Inl (KeyError ''SVR'')
   \<and> dispatch ''SVR'' (JObj kvs) = Inr (SVR kvs)"
  by (simp add: pipeline_unlisted model_config_files_def dispatch_def construct_def)

section \<open>Imputation\<close>

lemma fill_row_length:
  "list_all (\<lambda>f. f \<noteq> None) fills \<Longrightarrow> length fills = length r
     \<Longrightarrow> length (fill_row fills r) = length r"
  by (induction fills r rule: fill_row.induct) simp_all

lemma filter_keeps_all: "length (filter P xs) = length xs \<longleftrightarrow> list_all P xs"
proof
  assume len: "length (filter P xs) = length xs"
  show "list_all P xs"
  proof (rule ccontr)
    assume "\<not> list_all P xs"
    then obtain x where "x \<in> set xs" "\<not> P x" by (auto simp: list_all_iff)
    then have "length (filter P xs) < length xs" by (rule length_filter_less)
    with len show False by simp
  qed
next
  assume "list_all P xs"
  then show "length (filter P xs) = length xs" by (simp add: list_all_iff)
qed

lemma fill_values_length: "length (fill_values stat d) = length (columns d)"
  by (simp add: fill_values_def)

lemma fill_values_all:
  "list_all (\<lambda>f. f \<noteq> None) (fill_values stat d)
     \<longleftrightarrow> list_all (\<lambda>j. stat (observed d j) \<noteq> None) [0..<length (columns d)]"
  by (simp add: fill_values_def list_all_iff)

lemma DataFrame_shape:
  assumes "DataFrame arr ls = Inr x"
  shows "columns x = ls \<and> length (rows x) = length (snd arr)
         \<and> list_all (\<lambda>r. length r = length ls) (rows x)"
  using assms by (auto simp: DataFrame_def list_all_iff split: if_splits)

lemma fit_transform_rows:
  assumes "fit_transform L strategy d = Inr arr"
  shows "length (snd arr) = length (rows d)"
  using assms
  by (auto simp: fit_transform_def split: json.splits option.splits if_splits)

lemma imputation_shape:
  assumes "imputation L s = Inr s'" and "columns (X s) = features s"
    and "list_all (\<lambda>r. length r = length (columns (X s))) (rows (X s))"
  shows "length (rows (X s')) = length (rows (X s)) \<and> columns (X s') = columns (X s)
         \<and> list_all (\<lambda>r. length r = length (columns (X s))) (rows (X s'))"
proof -
  from assms(1) consider (off) "s' = s"
    | (on) strategy arr x where "fit_transform L strategy (X s) = Inr arr"
        "DataFrame arr (features s) = Inr x" "s' = s\<lparr>X := x\<rparr>"
    by (auto simp: imputation_def and_then_eq_Inr split: if_splits)
  then show ?thesis
  proof cases
    case off
    with assms(3) show ?thesis by simp
  next
    case on
    from fit_transform_rows [OF on(1)] DataFrame_shape [OF on(2)] on(3) assms(2)
    show ?thesis by simp
  qed
qed

lemma imputation_returns_iff:
  assumes mv: "getitem (config s) ''missing_value_imputation'' = Inr mv"
    and en: "getitem mv ''enabled'' = Inr en" "truthy en"
    and st: "getitem mv ''strategy'' = Inr (JStr nm)" "strategies L nm = Some stat"
    and cols: "columns (X s) = features s"
    and wf: "list_all (\<lambda>r. length r = length (columns (X s))) (rows (X s))"
  shows "(\<exists>s'. imputation L s = Inr s') \<longleftrightarrow>
           rows (X s) \<noteq> [] \<and> columns (X s) \<noteq> []
           \<and> list_all (\<lambda>j. stat (observed (X s) j) \<noteq> None) [0..<length (columns (X s))]"
proof -
  let ?fills = "fill_values stat (X s)"
  let ?arr = "(length (filter (\<lambda>f. f \<noteq> None) ?fills), map (fill_row ?fills) (rows (X s)))"
  have step: "imputation L s =
      (if rows (X s) = [] \<or> columns (X s) = []
       then Inl (ValueError ''Found array with 0 sample(s) or 0 feature(s)'')
       else and_then (DataFrame ?arr (features s)) (\<lambda>x. Inr (s\<lparr>X := x\<rparr>)))"
    using mv en st by (simp add: imputation_def fit_transform_def)
  have frame: "(\<exists>x. DataFrame ?arr (features s) = Inr x) \<longleftrightarrow> list_all (\<lambda>f. f \<noteq> None) ?fills"
  proof
    assume "\<exists>x. DataFrame ?arr (features s) = Inr x"
    then have "length (filter (\<lambda>f. f \<noteq> None) ?fills) = length ?fills"
      using cols by (auto simp: DataFrame_def fill_values_length split: if_splits)
    then show "list_all (\<lambda>f. f \<noteq> None) ?fills" by (simp only: filter_keeps_all)
  next
    assume all: "list_all (\<lambda>f. f \<noteq> None) ?fills"
    then have width: "length (filter (\<lambda>f. f \<noteq> None) ?fills) = length (features s)"
      using cols by (simp add: filter_keeps_all [symmetric] fill_values_length)
    have "list_all (\<lambda>r. length r = length (features s)) (map (fill_row ?fills) (rows (X s)))"
      using wf cols all by (auto simp: list_all_iff fill_row_length fill_values_length)
    with width show "\<exists>x. DataFrame ?arr (features s) = Inr x"
      by (simp add: DataFrame_def)
  qed
  show ?thesis
    unfolding step fill_values_all [symmetric] frame [symmetric]
    by (auto simp: and_then_eq_Inr)
qed

text \<open>
  C3, as the claim states it. A feature column in which every value is missing has
  no mean: the imputer returns an array without that column, and the relabelling of
  line 50, which puts the two configured labels on it, raises ValueError. On such a
  table the step produces no feature matrix at all.
\<close>

theorem all_missing_column_fails_imputation:
  "feature_selection (loaded imputing_config hollow_rows) = Inr hollow_selected
   \<and> rows (X hollow_selected) = [[Some 1, None], [Some 2, None], [Some 3, None]]
   \<and> imputation example_lib hollow_selected
       = Inl (ValueError ''Shape of passed values does not match the columns'')"
  by (simp add: hollow_features hollow_imputation) (simp add: hollow_selected_def)

text \<open>
  C3, amended. For every table and every configuration, once the features are
  selected: whenever the imputation step returns, its feature matrix has as many rows
  as before, the same column labels in the same order, and rows of the same width,
  however many cells were missing; and with imputation enabled and a strategy the
  library knows by name, the step returns exactly when the matrix has a row, has a
  column, and the strategy has a fill value for every column. It never returns a
  matrix of another shape: where a column has no fill value, line 50 raises.
\<close>

theorem imputation_keeps_shape_or_fails:
  assumes "feature_selection s0 = Inr s1"
  shows "(\<forall>s2. imputation L s1 = Inr s2 \<longrightarrow>
            length (rows (X s2)) = length (rows (X s1))
            \<and> columns (X s2) = columns (X s1)
            \<and> list_all (\<lambda>r. length r = length (columns (X s1))) (rows (X s2)))
       \<and> (\<forall>mv en nm stat.
             getitem (config s1) ''missing_value_imputation'' = Inr mv
             \<and> getitem mv ''enabled'' = Inr en \<and> truthy en
             \<and> getitem mv ''strategy'' = Inr (JStr nm) \<and> strategies L nm = Some stat
             \<longrightarrow> ((\<exists>s2. imputation L s1 = Inr s2) \<longleftrightarrow>
                    rows (X s1) \<noteq> [] \<and> columns (X s1) \<noteq> []
                    \<and> list_all (\<lambda>j. stat (observed (X s1) j) \<noteq> None)
                         [0..<length (columns (X s1))]))"
proof -
  from feature_selection_effect [OF assms] obtain ls x t where
    x: "select_columns (df s0) ls = Inr x" and s1: "s1 = s0\<lparr>features := ls, X := x, y := t\<rparr>"
    by blast
  from select_columns_shape [OF x] s1
  have cols: "columns (X s1) = features s1"
    and wf: "list_all (\<lambda>r. length r = length (columns (X s1))) (rows (X s1))"
    by simp_all
  have shape: "length (rows (X s2)) = length (rows (X s1))
            \<and> columns (X s2) = columns (X s1)
            \<and> list_all (\<lambda>r. length r = length (columns (X s1))) (rows (X s2))"
    if "imputation L s1 = Inr s2" for s2
    using imputation_shape [OF that cols wf] .
  have returns: "(\<exists>s2. imputation L s1 = Inr s2) \<longleftrightarrow>
                    rows (X s1) \<noteq> [] \<and> columns (X s1) \<noteq> []
                    \<and> list_all (\<lambda>j. stat (observed (X s1) j) \<noteq> None)
                         [0..<length (columns (X s1))]"
    if "getitem (config s1) ''missing_value_imputation'' = Inr mv"
      "getitem mv ''enabled'' = Inr en" "truthy en"
      "getitem mv ''strategy'' = Inr (JStr nm)" "strategies L nm = Some stat"
    for mv en nm stat
    using imputation_returns_iff [OF that cols wf] .
  from shape returns show ?thesis by blast
qed

theorem imputation_keeps_shape_or_fails_witness:
  "\<exists>s1 s2. feature_selection (loaded imputing_config gappy_rows) = Inr s1
     \<and> imputation example_lib s1 = Inr s2
     \<and> rows (X s1) = [[Some 1, None], [None, Some 4], [Some 3, Some 6]]
     \<and> rows (X s2) = [[Some 1, Some 5], [Some 2, Some 4], [Some 3, Some 6]]
     \<and> length (rows (X s2)) = length (rows (X s1))
     \<and> columns (X s2) = columns (X s1)"
proof -
  from imputation_keeps_shape_or_fails [OF gappy_features, of example_lib] gappy_imputation
  have shape: "length (rows (X gappy_imputed)) = length (rows (X gappy_selected))
     \<and> columns (X gappy_imputed) = columns (X gappy_selected)"
    by blast
  have before: "rows (X gappy_selected) = [[Some 1, None], [None, Some 4], [Some 3, Some 6]]"
    by (simp add: gappy_selected_def)
  have after: "rows (X gappy_imputed) = [[Some 1, Some 5], [Some 2, Some 4], [Some 3, Some 6]]"
    by (simp add: gappy_imputed_def)
  from gappy_features gappy_imputation before after shape show ?thesis
    by blast
qed

section \<open>The concrete scenario\<close>



section \<open>Plots\<close>




section \<open>Configuration and data are read only\<close>

lemma last_path_join: "b \<noteq> [] \<Longrightarrow> last (path_join a b) = last b"
  by (auto simp: path_join_def)

lemma config_path_last: "last (config_path model_type) = CHR ''n''"
  by (simp add: config_path_def last_path_join)

lemma boxplot_path_last: "last (boxplot_path c) = CHR ''g''"
  by (simp add: boxplot_path_def last_path_join)

lemma corr_path_last: "last corr_path = CHR ''g''"
  by (simp add: corr_path_def last_path_join)

lemma config_path_not_boxplot: "config_path model_type \<noteq> boxplot_path c"
  using config_path_last [of model_type] boxplot_path_last [of c] by auto

lemma config_path_not_corr: "config_path model_type \<noteq> corr_path"
  using config_path_last [of model_type] corr_path_last by auto

lemma file_at_first_write:
  assumes "p \<notin> set (map fst ws)"
  shows "file_at ((p, v) # ws) p = Some v"
proof -
  from assms have "map_of (rev ws) p = None"
    by (simp add: map_of_eq_None_iff)
  then show ?thesis by (simp add: file_at_def map_add_def)
qed

lemma step_keeps_config_and_df:
  assumes "step \<in> set (script L E model_type)" and "step a = Inr b"
  shows "config b = config a \<and> df b = df a"
proof -
  from assms(1) consider
    "step = feature_selection" | "step = imputation L" | "step = data_splitting L"
    | "step = model_selection model_type" | "step = start_run E model_type" | "step = train L"
    | "step = predict" | "step = calculate_metrics L" | "step = log_run model_type"
    | "step = log_config model_type" | "step = log_boxplots L" | "step = log_correlation L"
    by (auto simp: script_def)
  then show ?thesis
  proof cases
    case 1 with assms(2) feature_selection_effect [of a b] show ?thesis by auto
  next
    case 2 with assms(2) imputation_effect [of L a b] show ?thesis by auto
  next
    case 3 with assms(2) data_splitting_effect [of L a b] show ?thesis by auto
  next
    case 4 with assms(2) model_selection_effect [of model_type a b] show ?thesis by auto
  next
    case 5 with assms(2) start_run_effect [of E model_type a b] show ?thesis by auto
  next
    case 6 with assms(2) train_effect [of L a b] show ?thesis by auto
  next
    case 7 with assms(2) predict_effect [of a b] show ?thesis by auto
  next
    case 8 with assms(2) calculate_metrics_effect [of L a b] show ?thesis by auto
  next
    case 9 with assms(2) log_run_effect [of model_type a b] show ?thesis by auto
  next
    case 10 with assms(2) log_config_effect [of model_type a b] show ?thesis by auto
  next
    case 11 with assms(2) log_boxplots_effect [of L a b] show ?thesis by auto
  next
    case 12 with assms(2) log_correlation_effect [of L a b] show ?thesis by auto
  qed
qed

lemma run_steps_keeps_config_and_df:
  assumes "\<And>step a b. step \<in> set steps \<Longrightarrow> step a = Inr b \<Longrightarrow> config b = config a \<and> df b = df a"
    and "run_steps steps s = Inr s'"
  shows "config s' = config s \<and> df s' = df s"
  using assms
proof (induction steps arbitrary: s)
  case Nil
  then show ?case by simp
next
  case (Cons f fs)
  from Cons.prems(2) obtain s1 where f: "f s = Inr s1" and rest: "run_steps fs s1 = Inr s'"
    by (auto simp: and_then_eq_Inr)
  have "f \<in> set (f # fs)" by simp
  from Cons.prems(1) [OF this f] have "config s1 = config s \<and> df s1 = df s" .
  moreover have "config s' = config s1 \<and> df s' = df s1"
  proof (rule Cons.IH [OF _ rest])
    fix step a b
    assume "step \<in> set fs" and "step a = Inr b"
    then show "config b = config a \<and> df b = df a"
      using Cons.prems(1) [of step a b] by simp
  qed
  ultimately show ?case by simp
qed

lemma snapshot_written:
  assumes "pipeline L E model_type = Inr s"
  shows "file_at (written s) (config_path model_type) = Some (Json_text (config s))"
proof -
  from assms obtain s0 s1 s2 s3 ps pngs png where
    "load E model_type = Inr s0" "feature_selection s0 = Inr s1"
    "imputation L s1 = Inr s2" "data_splitting L s2 = Inr s3"
    and same: "config s = config s0"
    and "df s = df s0" "features s = features s1" "X s = X s2"
      "X_train s = X_train s3" "X_test s = X_test s3"
      "y_train s = y_train s3" "y_test s = y_test s3"
      "log_params (hyperparameters s) = Inr ps"
      "tracking s = Log_param ''model_type'' (JStr model_type) # ps @
       [Log_metric ''mse'' (mse s), Log_metric ''mae'' (mae s),
        Log_metric ''rmse'' (rmse s), Log_metric ''r2'' (r2 s),
        Log_model ''model'', Log_artifact (config_path model_type)] @
       map (\<lambda>c. Log_artifact (boxplot_path c)) (columns (X s2)) @ [Log_artifact corr_path]"
    and wr: "written s = (config_path model_type, Json_text (config s0)) #
       zip (map boxplot_path (columns (X s2))) (map Png pngs) @ [(corr_path, Png png)]"
    and "length pngs = length (columns (X s2))"
    by (rule pipeline_run)
  define ws where
    "ws = zip (map boxplot_path (columns (X s2))) (map Png pngs) @ [(corr_path, Png png)]"
  have "config_path model_type \<notin> set (map fst ws)"
  proof
    assume "config_path model_type \<in> set (map fst ws)"
    then obtain v where "(config_path model_type, v) \<in> set ws" by auto
    then consider c where "config_path model_type = boxplot_path c"
      | "config_path model_type = corr_path"
      by (auto simp: ws_def dest!: set_zip_leftD)
    then show False
      using config_path_not_boxplot config_path_not_corr by cases blast+
  qed
  then have "file_at ((config_path model_type, Json_text (config s0)) # ws) (config_path model_type)
      = Some (Json_text (config s0))"
    by (rule file_at_first_write)
  with wr same show ?thesis by (simp add: ws_def)
qed

text \<open>
  C9. After loading, no statement of the script changes the configuration or the
  table: each of the twelve statements that follow, run from any state, returns a
  state with the same \<open>config\<close> and the same \<open>df\<close>; so does the whole run; and the file
  at the snapshot path, once the run is over, holds the configuration as loaded
  (no later write goes to that path). The script itself never assigns to an item of
  \<open>config\<close> or \<open>df\<close> and rebinds neither name; the library calls it makes are
  functions of their arguments here, returning new values.
\<close>

theorem config_and_dataset_never_mutated:
  assumes "load E model_type = Inr s0" and "run_steps (script L E model_type) s0 = Inr s"
  shows "config s = config s0 \<and> df s = df s0
         \<and> (\<forall>step \<in> set (script L E model_type). \<forall>a b.
               step a = Inr b \<longrightarrow> config b = config a \<and> df b = df a)
         \<and> file_at (written s) (config_path model_type) = Some (Json_text (config s0))"
proof -
  have frame: "config s = config s0 \<and> df s = df s0"
    using run_steps_keeps_config_and_df [OF _ assms(2)] step_keeps_config_and_df by blast
  from assms have "pipeline L E model_type = Inr s" by (simp add: pipeline_def)
  from snapshot_written [OF this] frame
  have "file_at (written s) (config_path model_type) = Some (Json_text (config s0))"
    by simp
  with frame show ?thesis using step_keeps_config_and_df by auto
qed

theorem config_and_dataset_never_mutated_witness:
  "\<exists>s. load (env_with scenario_config ten_rows) ''RandomForestRegressor''
         = Inr (loaded scenario_config ten_rows)
     \<and> run_steps (script example_lib (env_with scenario_config ten_rows) ''RandomForestRegressor'')
         (loaded scenario_config ten_rows) = Inr s
     \<and> config s = scenario_config \<and> df s = ten_rows
     \<and> file_at (written s) (config_path ''RandomForestRegressor'')
         = Some (Json_text scenario_config)"
proof -
  from scenario_run obtain s where
    "pipeline example_lib (env_with scenario_config ten_rows) ''RandomForestRegressor'' = Inr s"
    by blast
  then have run: "run_steps
      (script example_lib (env_with scenario_config ten_rows) ''RandomForestRegressor'')
      (loaded scenario_config ten_rows) = Inr s"
    by (simp add: pipeline_def scenario_load)
  from config_and_dataset_never_mutated [OF scenario_load run]
  have "config s = scenario_config \<and> df s = ten_rows
     \<and> file_at (written s) (config_path ''RandomForestRegressor'')
         = Some (Json_text scenario_config)"
    by (simp add: loaded_def)
  with run scenario_load show ?thesis by blast
qed

end
